theory Spec2Isabelle
  imports Main
begin

section \<open>The locale manager of entity-locale (src/lib/index.js)\<close>

text \<open>
  The \<open>Locale\<close> class keeps one private object \<open>locales\<close>, created as \<open>{}\<close>, whose properties
  are the languages; the value of a language is again an object created as \<open>{}\<close>, whose
  properties are the messages with their translations. The source reads and writes both
  with bracket access, which follows the prototype chain, so the model holds three things:
  the own properties of \<open>locales\<close> with the own properties of each language's set, the data
  properties of \<open>Object.prototype\<close>, which every one of these objects inherits, and the
  names of \<open>Object.prototype\<close> that \<open>for ... in\<close> enumerates. Translations are strings.

  The callbacks of the source (\<open>done(err)\<close>) become a returned pair: the error handed to
  \<open>done\<close> (\<open>None\<close> for \<open>done(null)\<close>) and the state as the call leaves it.
\<close>

subsection \<open>Data\<close>

type_synonym translation_set = "string \<rightharpoonup> string"

text \<open>
  The errors of the source are whatever its collaborators and the language raise; they are
  told apart by where they come from: \<open>require\<close> and \<open>glob\<close> (\<open>LoadError\<close>), the database
  collection (\<open>StoreError\<close>), the \<open>throw new Error()\<close> of \<open>locales\<close> (\<open>UndefinedLanguageError\<close>)
  and the \<open>TypeError\<close> of a call or a property access that JavaScript refuses.
\<close>

datatype error = LoadError | StoreError | UndefinedLanguageError | TypeError

text \<open>
  What a call does: it returns, it throws, or it reads or writes a property of an object
  whose property table belongs to the engine and not to this repository (a built-in
  function object, a primitive string with \<open>String.prototype\<close>), or depends on the order
  in which the engine enumerates inherited properties. The last two cases are \<open>Unmodelled\<close>:
  nothing is stated about them.
\<close>

datatype 'a result = Returns 'a | Throws error | Unmodelled

text \<open>
  A data property of \<open>Object.prototype\<close>: a built-in function, kept with its \<open>length\<close>, or
  a string that this module has written there.
\<close>

datatype pval = Builtin nat | Written string

text \<open>The values that a property read of the source can produce.\<close>

datatype jsval =
    Undefined
  | Null
  | Str string
  | Function nat
  | Object_prototype
  | Set translation_set

text \<open>
  The state: \<open>table\<close> holds the own properties of \<open>locales\<close>, each a set with its own
  properties; \<open>prototype\<close> holds the data properties of \<open>Object.prototype\<close>; \<open>enumerable\<close>
  lists the names among them that \<open>for ... in\<close> visits, in the order of their creation.
  The engine visits integer-like names before the others. The loop of \<open>_processFile\<close>
  visits each inherited name once and reads and writes under that name only, so the order
  among them is of no effect there; \<open>_strtr\<close>, where the order of the tokens decides, is
  \<open>Unmodelled\<close> as soon as its parameters inherit an enumerable name.
\<close>

record state =
  table :: "string \<rightharpoonup> translation_set"
  prototype :: "string \<rightharpoonup> pval"
  enumerable :: "string list"

text \<open>
  \<open>Object.prototype\<close> as the engine starts it: its functions with their \<open>length\<close>, none of
  them enumerable. Its accessor \<open>__proto__\<close> is not in the table: the reads and writes below
  treat that name on its own.
\<close>

definition object_prototype :: "string \<rightharpoonup> pval" where
  "object_prototype = map_of
     [(''constructor'', Builtin 1),
      (''toString'', Builtin 0),
      (''toLocaleString'', Builtin 0),
      (''valueOf'', Builtin 0),
      (''hasOwnProperty'', Builtin 1),
      (''isPrototypeOf'', Builtin 1),
      (''propertyIsEnumerable'', Builtin 1),
      (''__defineGetter__'', Builtin 2),
      (''__defineSetter__'', Builtin 2),
      (''__lookupGetter__'', Builtin 1),
      (''__lookupSetter__'', Builtin 1)]"

text \<open>\<open>new Locale(core)\<close> where nothing has written on \<open>Object.prototype\<close>: \<open>var locales = {}\<close>.\<close>

definition new_Locale :: state where
  "new_Locale = \<lparr>table = Map.empty, prototype = object_prototype, enumerable = []\<rparr>"

text \<open>A document of the \<open>locales\<close> collection.\<close>

record doc =
  language :: string
  msg :: string
  translation :: string

text \<open>
  The collaborators. \<open>require f\<close> is the parsed content of the JSON file \<open>f\<close>, its own keys
  in the order \<open>for (var msg in locale)\<close> enumerates them, or \<open>None\<close> when \<open>require\<close> throws.
  \<open>glob d\<close> is the list of paths found under the directory \<open>d\<close>, or \<open>None\<close> when the listing
  fails.
\<close>

record filesystem =
  require :: "string \<Rightarrow> (string \<times> string) list option"
  glob :: "string \<Rightarrow> string list option"

text \<open>
  The collection holds its documents in a list; the three flags say which of its operations
  answers with an error.
\<close>

record collection =
  docs :: "doc list"
  find_fails :: bool
  findOne_fails :: bool
  save_fails :: bool

definition find_all :: "collection \<Rightarrow> error + doc list" where
  "find_all c = (if find_fails c then Inl StoreError else Inr (docs c))"

definition findOne :: "collection \<Rightarrow> string \<Rightarrow> string \<Rightarrow> error + doc option" where
  "findOne c lang str =
     (if findOne_fails c then Inl StoreError
      else Inr (find (\<lambda>d. language d = lang \<and> msg d = str) (docs c)))"

text \<open>
  \<open>save\<close> of a document that \<open>findOne\<close> returned replaces that document (the first one of
  its language and message); \<open>save\<close> of a new document appends it.
\<close>

fun replace_first :: "doc \<Rightarrow> doc list \<Rightarrow> doc list" where
  "replace_first d [] = [d]"
| "replace_first d (e # es) =
     (if language e = language d \<and> msg e = msg d then d # es else e # replace_first d es)"

definition save :: "collection \<Rightarrow> doc \<Rightarrow> error + collection" where
  "save c d =
     (if save_fails c then Inl StoreError else Inr (c\<lparr>docs := replace_first d (docs c)\<rparr>))"

subsection \<open>JavaScript primitives\<close>

text \<open>\<open>s.split('.')\<close>: the segments between the dots, never an empty array.\<close>

fun split_dot :: "string \<Rightarrow> string list" where
  "split_dot [] = [[]]"
| "split_dot (c # cs) =
     (if c = CHR ''.'' then [] # split_dot cs
      else (case split_dot cs of [] \<Rightarrow> [[c]] | w # ws \<Rightarrow> (c # w) # ws))"


text \<open>
  The truth value of a value in a condition: \<open>undefined\<close>, \<open>null\<close> and the empty string are
  false; every other string, every function and every object is true.
\<close>

fun truthy :: "jsval \<Rightarrow> bool" where
  "truthy Undefined = False"
| "truthy Null = False"
| "truthy (Str s) = (s \<noteq> [])"
| "truthy (Function n) = True"
| "truthy Object_prototype = True"
| "truthy (Set s) = True"

text \<open>\<open>x === undefined\<close>\<close>

fun is_undefined :: "jsval \<Rightarrow> bool" where
  "is_undefined Undefined = True"
| "is_undefined x = False"

text \<open>
  \<open>async.series(queue, callback)\<close>: the tasks run one after the other on the state the
  previous one left; the first error ends the run and is handed to the callback.
\<close>

fun series ::
  "('s \<Rightarrow> (error option \<times> 's) result) list \<Rightarrow> 's \<Rightarrow> (error option \<times> 's) result" where
  "series [] s = Returns (None, s)"
| "series (task # queue) s =
     (case task s of
        Returns (Some err, s') \<Rightarrow> Returns (Some err, s')
      | Returns (None, s') \<Rightarrow> series queue s'
      | Throws e \<Rightarrow> Throws e
      | Unmodelled \<Rightarrow> Unmodelled)"

subsection \<open>Property access\<close>

text \<open>
  \<open>o[k]\<close> for an object \<open>o\<close> created as \<open>{}\<close> that has no own property \<open>k\<close>: the getter of
  \<open>__proto__\<close> answers with the prototype of \<open>o\<close>, which is \<open>Object.prototype\<close>; any other
  name is looked up among the data properties of \<open>Object.prototype\<close>.
\<close>

definition data_property :: "state \<Rightarrow> string \<Rightarrow> jsval" where
  "data_property st k =
     (case prototype st k of
        None \<Rightarrow> Undefined
      | Some (Builtin n) \<Rightarrow> Function n
      | Some (Written s) \<Rightarrow> Str s)"

definition inherited :: "state \<Rightarrow> string \<Rightarrow> jsval" where
  "inherited st k = (if k = ''__proto__'' then Object_prototype else data_property st k)"

text \<open>\<open>this._locales[language]\<close>: the own set of the language, or what \<open>locales\<close> inherits.\<close>

definition locales_get :: "state \<Rightarrow> string \<Rightarrow> jsval" where
  "locales_get st lang =
     (case table st lang of Some s \<Rightarrow> Set s | None \<Rightarrow> inherited st lang)"

text \<open>
  \<open>o[k]\<close> where \<open>o\<close> is the value of \<open>this._locales[language]\<close>. On \<open>Object.prototype\<close> itself
  the getter of \<open>__proto__\<close> answers \<open>null\<close>. A property of \<open>undefined\<close> or \<open>null\<close> is a
  \<open>TypeError\<close>.
\<close>

fun get_property :: "state \<Rightarrow> jsval \<Rightarrow> string \<Rightarrow> jsval result" where
  "get_property st (Set s) k =
     Returns (case s k of Some v \<Rightarrow> Str v | None \<Rightarrow> inherited st k)"
| "get_property st Object_prototype k =
     Returns (if k = ''__proto__'' then Null else data_property st k)"
| "get_property st Undefined k = Throws TypeError"
| "get_property st Null k = Throws TypeError"
| "get_property st (Function n) k = Unmodelled"
| "get_property st (Str s) k = Unmodelled"

text \<open>
  \<open>this._locales[language][k] = v\<close> with a string \<open>v\<close>, in strict mode. On a set the setter
  of the inherited \<open>__proto__\<close> ignores a string, and any other name becomes an own property
  (the data properties of \<open>Object.prototype\<close> are writable). On \<open>Object.prototype\<close> the value
  is written there: an existing property keeps its place among the enumerable names or
  outside them, a new one is enumerable.
\<close>

definition put_property :: "state \<Rightarrow> string \<Rightarrow> string \<Rightarrow> string \<Rightarrow> state result" where
  "put_property st lang k v =
     (case locales_get st lang of
        Set s \<Rightarrow>
          Returns (if k = ''__proto__'' \<and> s k = None then st
                   else st\<lparr>table := (table st)(lang \<mapsto> s(k \<mapsto> v))\<rparr>)
      | Object_prototype \<Rightarrow>
          Returns (if k = ''__proto__'' then st
                   else st\<lparr>prototype := (prototype st)(k \<mapsto> Written v),
                           enumerable := (if prototype st k = None then enumerable st @ [k]
                                          else enumerable st)\<rparr>)
      | Undefined \<Rightarrow> Throws TypeError
      | Null \<Rightarrow> Throws TypeError
      | Function n \<Rightarrow> Unmodelled
      | Str s \<Rightarrow> Unmodelled)"

text \<open>
  \<open>for (var k in o)\<close> on an object \<open>o\<close> with the own entries \<open>own\<close>: after them come the
  enumerable properties of \<open>Object.prototype\<close> that \<open>o\<close> does not shadow, each with the
  value \<open>o[k]\<close> reads. The names are collected when the loop starts: one that the body
  of the loop creates on \<open>Object.prototype\<close> is not visited by that loop.
\<close>

definition for_in_inherited :: "state \<Rightarrow> (string \<times> string) list \<Rightarrow> (string \<times> string) list" where
  "for_in_inherited st own =
     concat (map (\<lambda>k. case prototype st k of
                         Some (Written s) \<Rightarrow>
                           (if k \<in> fst ` set own \<or> k = ''__proto__'' then [] else [(k, s)])
                       | _ \<Rightarrow> [])
                 (enumerable st))"

subsection \<open>Loading\<close>

text \<open>\<open>if (this._locales[language] === undefined) { this._locales[language] = {}; }\<close>\<close>

definition ensure_set :: "state \<Rightarrow> string \<Rightarrow> state" where
  "ensure_set st lang =
     (if is_undefined (locales_get st lang) then st\<lparr>table := (table st)(lang \<mapsto> Map.empty)\<rparr>
      else st)"

text \<open>
  The two statements of \<open>_addFromDatabase\<close> and of \<open>translate\<close> that store a translation:
  the set is created when the language is \<open>undefined\<close>, then the entry is assigned.
\<close>

definition set_entry :: "state \<Rightarrow> string \<Rightarrow> string \<Rightarrow> string \<Rightarrow> state result" where
  "set_entry st lang str v = put_property (ensure_set st lang) lang str v"

fun addFromDatabase_forEach :: "doc list \<Rightarrow> state \<Rightarrow> state result" where
  "addFromDatabase_forEach [] st = Returns st"
| "addFromDatabase_forEach (d # ds) st =
     (case set_entry st (language d) (msg d) (translation d) of
        Returns st' \<Rightarrow> addFromDatabase_forEach ds st'
      | Throws e \<Rightarrow> Throws e
      | Unmodelled \<Rightarrow> Unmodelled)"

definition addFromDatabase :: "collection \<Rightarrow> state \<Rightarrow> (error option \<times> state) result" where
  "addFromDatabase c st =
     (case find_all c of
        Inl err \<Rightarrow> Returns (Some err, st)
      | Inr ds \<Rightarrow>
          (case addFromDatabase_forEach ds st of
             Returns st' \<Rightarrow> Returns (None, st')
           | Throws e \<Rightarrow> Throws e
           | Unmodelled \<Rightarrow> Unmodelled))"

text \<open>
  \<open>_processFile\<close>. The language is \<open>filename.split('.')[1]\<close>; with no second segment that is
  \<open>undefined\<close>, which as a property name reads \<open>'undefined'\<close>.
\<close>

definition language_of :: "string \<Rightarrow> string" where
  "language_of filename =
     (case split_dot filename of _ # l # _ \<Rightarrow> l | _ \<Rightarrow> ''undefined'')"

text \<open>
  The \<open>for (var msg in locale)\<close> loop: a message whose entry is truthy is skipped, any other
  is assigned. The loop runs inside \<open>try\<close>, so a \<open>TypeError\<close> ends it and is handed to
  \<open>done\<close>, with the entries assigned so far left in place.
\<close>

fun processFile_loop ::
  "(string \<times> string) list \<Rightarrow> string \<Rightarrow> state \<Rightarrow> (error option \<times> state) result" where
  "processFile_loop [] lang st = Returns (None, st)"
| "processFile_loop ((m, v) # rest) lang st =
     (case get_property st (locales_get st lang) m of
        Returns x \<Rightarrow>
          (if truthy x then processFile_loop rest lang st
           else (case put_property st lang m v of
                   Returns st' \<Rightarrow> processFile_loop rest lang st'
                 | Throws e \<Rightarrow> Returns (Some e, st)
                 | Unmodelled \<Rightarrow> Unmodelled))
      | Throws e \<Rightarrow> Returns (Some e, st)
      | Unmodelled \<Rightarrow> Unmodelled)"

definition processFile :: "filesystem \<Rightarrow> string \<Rightarrow> state \<Rightarrow> (error option \<times> state) result" where
  "processFile fs filename st =
     (case require fs filename of
        None \<Rightarrow> Returns (Some LoadError, st)
      | Some locale \<Rightarrow>
          (let lang = language_of filename;
               st' = ensure_set st lang
           in processFile_loop (locale @ for_in_inherited st' locale) lang st'))"

definition addFromFile :: "filesystem \<Rightarrow> string \<Rightarrow> state \<Rightarrow> (error option \<times> state) result" where
  "addFromFile fs filename st = processFile fs filename st"

text \<open>
  \<open>addFromDir\<close>: the paths listed are filtered by the shape of their split, and the ones
  kept are loaded in series.
\<close>

definition eligible :: "string \<Rightarrow> bool" where
  "eligible item = (let splt = split_dot item in length splt = 3 \<and> length (splt ! 1) = 2)"

definition addFromDir :: "filesystem \<Rightarrow> string \<Rightarrow> state \<Rightarrow> (error option \<times> state) result" where
  "addFromDir fs dir st =
     (case glob fs dir of
        None \<Rightarrow> Returns (Some LoadError, st)
      | Some files \<Rightarrow> series (map (addFromFile fs) (filter eligible files)) st)"

text \<open>\<open>initialize\<close>; \<open>dir\<close> is \<open>None\<close> when the caller passes no directory.\<close>

definition initialize ::
  "filesystem \<Rightarrow> collection \<Rightarrow> string option \<Rightarrow> state \<Rightarrow> (error option \<times> state) result" where
  "initialize fs c dir st =
     series
       ((case dir of
           None \<Rightarrow> []
         | Some d \<Rightarrow> (if d \<noteq> [] then [addFromDir fs d] else []))
        @ [addFromDatabase c])
       st"

subsection \<open>Translating\<close>

text \<open>
  \<open>translate\<close>: the document found (or a new one) receives the translation, the table is
  assigned, and then the document is saved.
\<close>

definition translate ::
  "collection \<Rightarrow> string \<Rightarrow> string \<Rightarrow> string \<Rightarrow> state \<Rightarrow>
     (error option \<times> state \<times> collection) result" where
  "translate c lang str translated st =
     (case findOne c lang str of
        Inl err \<Rightarrow> Returns (Some err, st, c)
      | Inr found \<Rightarrow>
          (let d = (case found of
                      None \<Rightarrow> \<lparr>language = lang, msg = str, translation = translated\<rparr>
                    | Some d0 \<Rightarrow> d0\<lparr>translation := translated\<rparr>)
           in (case set_entry st lang str translated of
                 Returns st' \<Rightarrow>
                   (case save c d of
                      Inl err2 \<Rightarrow> Returns (Some err2, st', c)
                    | Inr c' \<Rightarrow> Returns (None, st', c'))
               | Throws e \<Rightarrow> Throws e
               | Unmodelled \<Rightarrow> Unmodelled)))"









text \<open>
  \<open>this._locales[language] && this._locales[language][str]\<close>, the condition of \<open>t\<close>: the
  value of the language when that is false, the value of the entry otherwise.
\<close>

definition entry :: "state \<Rightarrow> string \<Rightarrow> string \<Rightarrow> jsval result" where
  "entry st lang str =
     (let obj = locales_get st lang
      in if truthy obj then get_property st obj str else Returns obj)"



subsection \<open>Lookup\<close>

text \<open>\<open>locales\<close> throws when \<open>this._locales[language]\<close> is \<open>undefined\<close> and returns it otherwise.\<close>

definition locales :: "state \<Rightarrow> string \<Rightarrow> jsval result" where
  "locales st lang =
     (if is_undefined (locales_get st lang) then Throws UndefinedLanguageError
      else Returns (locales_get st lang))"

text \<open>
  The own properties alone: the entry of a message in the own set of a language, and the
  own set of a language (empty when there is none).
\<close>

definition own_entry :: "state \<Rightarrow> string \<Rightarrow> string \<Rightarrow> string option" where
  "own_entry st lang str = (case table st lang of None \<Rightarrow> None | Some s \<Rightarrow> s str)"

definition set_of :: "state \<Rightarrow> string \<Rightarrow> translation_set" where
  "set_of st lang = (case table st lang of None \<Rightarrow> Map.empty | Some s \<Rightarrow> s)"

subsection \<open>The substitution of the specification\<close>




subsection \<open>The file name of the specification\<close>


subsection \<open>Auxiliary notions for the properties\<close>

text \<open>
  \<open>this._locales[language]\<close> is a set of the table or \<open>undefined\<close>: the language is not
  a name that \<open>locales\<close> inherits.
\<close>

definition own_or_undefined :: "state \<Rightarrow> string \<Rightarrow> bool" where
  "own_or_undefined st lang \<longleftrightarrow> table st lang \<noteq> None \<or> is_undefined (inherited st lang)"

text \<open>
  What the loop of \<open>_processFile\<close> makes of a set of the table, as a function of the set:
  \<open>processFile_loop_on_set\<close> below shows that the loop computes it.
\<close>

fun set_loop :: "state \<Rightarrow> (string \<times> string) list \<Rightarrow> translation_set \<Rightarrow> translation_set" where
  "set_loop st [] s = s"
| "set_loop st ((m, v) # rest) s =
     (if truthy (case s m of Some w \<Rightarrow> Str w | None \<Rightarrow> inherited st m) then set_loop st rest s
      else set_loop st rest (s(m \<mapsto> v)))"

text \<open>
  The state that \<open>addFromFile\<close> leaves, for the folds over the files of a directory (the
  state it started from when the call neither returns nor hands over an error).
\<close>

definition loaded :: "filesystem \<Rightarrow> string \<Rightarrow> state \<Rightarrow> state" where
  "loaded fs f st = (case addFromFile fs f st of Returns (e, st') \<Rightarrow> st' | _ \<Rightarrow> st)"

section \<open>Properties\<close>

text \<open>The equations that evaluate a load on concrete files.\<close>

lemmas evaluation =
  addFromFile_def processFile_def processFile_loop.simps ensure_set_def put_property_def
  set_entry_def locales_get_def inherited_def data_property_def for_in_inherited_def
  language_of_def new_Locale_def object_prototype_def own_entry_def entry_def locales_def
  own_or_undefined_def set_of_def Let_def

subsection \<open>Property access\<close>

lemma locales_get_own: "table st lang = Some s \<Longrightarrow> locales_get st lang = Set s"
  by (simp add: locales_get_def)

lemma locales_get_none: "table st lang = None \<Longrightarrow> locales_get st lang = inherited st lang"
  by (simp add: locales_get_def)

lemma inherited_not_set: "inherited st k \<noteq> Set s"
  by (simp add: inherited_def data_property_def split: option.splits pval.splits)

lemma inherited_not_null: "inherited st k \<noteq> Null"
  by (simp add: inherited_def data_property_def split: option.splits pval.splits)

lemma locales_get_set_iff: "locales_get st lang = Set s \<longleftrightarrow> table st lang = Some s"
  by (cases "table st lang") (simp_all add: locales_get_def inherited_not_set)

lemma is_undefined_iff: "is_undefined x \<longleftrightarrow> x = Undefined"
  by (cases x) simp_all

lemma own_or_undefined_cases:
  "own_or_undefined st lang \<longleftrightarrow>
     (\<exists>s. table st lang = Some s) \<or> (table st lang = None \<and> locales_get st lang = Undefined)"
  by (cases "table st lang") (auto simp: own_or_undefined_def locales_get_def is_undefined_iff)

lemma ensure_set_own:
  "own_or_undefined st lang \<Longrightarrow>
   ensure_set st lang = st\<lparr>table := (table st)(lang \<mapsto> set_of st lang)\<rparr>"
proof (cases "table st lang")
  case None
  assume "own_or_undefined st lang"
  with None have "locales_get st lang = Undefined"
    by (simp add: own_or_undefined_cases)
  with None show ?thesis
    by (simp add: ensure_set_def set_of_def)
next
  case (Some s)
  then have "(table st)(lang \<mapsto> s) = table st"
    by (simp add: fun_upd_idem)
  with Some show ?thesis
    by (simp add: ensure_set_def set_of_def locales_get_def)
qed

lemma ensure_set_prototype [simp]:
  "prototype (ensure_set st lang) = prototype st" "enumerable (ensure_set st lang) = enumerable st"
  by (simp_all add: ensure_set_def)

lemma ensure_set_other: "L \<noteq> lang \<Longrightarrow> table (ensure_set st lang) L = table st L"
  by (simp add: ensure_set_def)

lemma ensure_set_defined: "\<not> is_undefined (locales_get (ensure_set st lang) lang)"
  by (simp add: ensure_set_def locales_get_def)

lemma inherited_table_update [simp]: "inherited (st\<lparr>table := tb\<rparr>) k = inherited st k"
  by (simp add: inherited_def data_property_def)

lemma inherited_ensure_set [simp]: "inherited (ensure_set st lang) k = inherited st k"
  by (simp add: ensure_set_def)

lemma own_entry_entry:
  "own_entry st lang k = Some v \<Longrightarrow> entry st lang k = Returns (Str v)"
  by (auto simp: own_entry_def entry_def locales_get_def split: option.splits)

subsection \<open>Loading a file\<close>







lemma set_loop_table_update: "set_loop (st\<lparr>table := tb\<rparr>) es s = set_loop st es s"
  by (induction es arbitrary: s) (auto split: option.splits)

lemma processFile_loop_on_set:
  "table st lang = Some s \<Longrightarrow>
   processFile_loop es lang st = Returns (None, st\<lparr>table := (table st)(lang \<mapsto> set_loop st es s)\<rparr>)"
proof (induction es arbitrary: st s)
  case Nil
  then have "(table st)(lang \<mapsto> s) = table st"
    by (simp add: fun_upd_idem)
  then show ?case by simp
next
  case (Cons e es)
  obtain m w where e: "e = (m, w)" by (cases e)
  from Cons.prems have T: "locales_get st lang = Set s"
    by (rule locales_get_own)
  show ?case
  proof (cases "truthy (case s m of Some w \<Rightarrow> Str w | None \<Rightarrow> inherited st m)")
    case True
    with Cons e T show ?thesis by simp
  next
    case False
    then have "\<not> (m = ''__proto__'' \<and> s m = None)"
      by (auto simp: inherited_def split: option.splits)
    with T have put: "put_property st lang m w
        = Returns (st\<lparr>table := (table st)(lang \<mapsto> s(m \<mapsto> w))\<rparr>)"
      by (auto simp: put_property_def)
    let ?st = "st\<lparr>table := (table st)(lang \<mapsto> s(m \<mapsto> w))\<rparr>"
    have "table ?st lang = Some (s(m \<mapsto> w))" by simp
    from Cons.IH [OF this]
    have run: "processFile_loop es lang ?st
        = Returns (None, ?st\<lparr>table := (table ?st)(lang \<mapsto> set_loop ?st es (s(m \<mapsto> w)))\<rparr>)" .
    have same: "set_loop ?st es (s(m \<mapsto> w)) = set_loop st es (s(m \<mapsto> w))"
      by (rule set_loop_table_update)
    have next_set: "set_loop st (e # es) s = set_loop st es (s(m \<mapsto> w))"
      using e False by simp
    have "processFile_loop (e # es) lang st = processFile_loop es lang ?st"
      using e T False put by simp
    also have "\<dots> = Returns (None, ?st\<lparr>table := (table ?st)(lang \<mapsto> set_loop st (e # es) s)\<rparr>)"
      by (simp only: run same next_set)
    also have "?st\<lparr>table := (table ?st)(lang \<mapsto> set_loop st (e # es) s)\<rparr>
        = st\<lparr>table := (table st)(lang \<mapsto> set_loop st (e # es) s)\<rparr>"
      by simp
    finally show ?thesis .
  qed
qed

lemma for_in_inherited_table_update [simp]:
  "for_in_inherited (st\<lparr>table := tb\<rparr>) own = for_in_inherited st own"
  by (simp add: for_in_inherited_def)

lemma for_in_inherited_ensure_set [simp]:
  "for_in_inherited (ensure_set st lang) own = for_in_inherited st own"
  by (simp add: ensure_set_def)


lemma for_in_inherited_none: "enumerable st = [] \<Longrightarrow> for_in_inherited st own = []"
  by (simp add: for_in_inherited_def)

lemma locales_get_not_null: "locales_get st lang \<noteq> Null"
  by (cases "table st lang") (simp_all add: locales_get_def inherited_not_null)

lemma addFromFile_unreadable:
  "require fs f = None \<Longrightarrow> addFromFile fs f st = Returns (Some LoadError, st)"
  by (simp add: addFromFile_def processFile_def)

lemma addFromFile_own:
  assumes "own_or_undefined st (language_of f)" and "require fs f = Some loc"
  shows "addFromFile fs f st =
     Returns (None, st\<lparr>table := (table st)(language_of f \<mapsto>
        set_loop st (loc @ for_in_inherited st loc) (set_of st (language_of f)))\<rparr>)"
proof -
  let ?L = "language_of f"
  let ?st = "st\<lparr>table := (table st)(?L \<mapsto> set_of st ?L)\<rparr>"
  let ?es = "loc @ for_in_inherited st loc"
  from assms(1) have ens: "ensure_set st ?L = ?st"
    by (rule ensure_set_own)
  have "table ?st ?L = Some (set_of st ?L)" by simp
  then have "processFile_loop ?es ?L ?st
      = Returns (None, ?st\<lparr>table := (table ?st)(?L \<mapsto> set_loop ?st ?es (set_of st ?L))\<rparr>)"
    by (rule processFile_loop_on_set)
  also have "set_loop ?st ?es (set_of st ?L) = set_loop st ?es (set_of st ?L)"
    by (rule set_loop_table_update)
  also have "?st\<lparr>table := (table ?st)(?L \<mapsto> set_loop st ?es (set_of st ?L))\<rparr>
      = st\<lparr>table := (table st)(?L \<mapsto> set_loop st ?es (set_of st ?L))\<rparr>"
    by simp
  finally have "processFile_loop ?es ?L ?st
      = Returns (None, st\<lparr>table := (table st)(?L \<mapsto> set_loop st ?es (set_of st ?L))\<rparr>)" .
  with assms(2) ens show ?thesis
    by (simp add: addFromFile_def processFile_def Let_def)
qed

lemma processFile_loop_engine:
  "locales_get st lang = Function n \<or> locales_get st lang = Str x \<Longrightarrow>
   processFile_loop es lang st = (if es = [] then Returns (None, st) else Unmodelled)"
  by (cases es) auto

lemma locales_get_prototype:
  "locales_get st lang = Object_prototype \<longleftrightarrow> table st lang = None \<and> lang = ''__proto__''"
  by (cases "table st lang")
    (auto simp: locales_get_def inherited_def data_property_def split: option.splits pval.splits)

lemma processFile_loop_on_prototype:
  "locales_get st lang = Object_prototype \<Longrightarrow>
   \<exists>st'. processFile_loop es lang st = Returns (None, st') \<and> table st' = table st"
proof (induction es arbitrary: st)
  case Nil
  then show ?case by simp
next
  case (Cons e es)
  obtain m w where e: "e = (m, w)" by (cases e)
  from Cons.prems have lang: "table st lang = None" "lang = ''__proto__''"
    by (auto simp: locales_get_prototype)
  show ?case
  proof (cases "truthy (if m = ''__proto__'' then Null else data_property st m)")
    case True
    with Cons e show ?thesis by simp
  next
    case False
    from Cons.prems obtain st1 where put: "put_property st lang m w = Returns st1"
      and tb: "table st1 = table st"
      by (auto simp: put_property_def)
    from tb lang have "locales_get st1 lang = Object_prototype"
      by (simp add: locales_get_prototype)
    from Cons.IH [OF this] tb e False put Cons.prems show ?thesis
      by auto
  qed
qed

lemma processFile_loop_no_error:
  "\<not> is_undefined (locales_get st lang) \<Longrightarrow> processFile_loop es lang st \<noteq> Returns (Some e, st')"
proof (cases "locales_get st lang")
  case Undefined
  assume "\<not> is_undefined (locales_get st lang)"
  with Undefined show ?thesis by simp
next
  case Null
  then show ?thesis by (simp add: locales_get_not_null)
next
  case (Str x)
  then show ?thesis by (simp add: processFile_loop_engine)
next
  case (Function n)
  then show ?thesis by (simp add: processFile_loop_engine)
next
  case Object_prototype
  from processFile_loop_on_prototype [OF this, of es] show ?thesis by auto
next
  case (Set s)
  then have "table st lang = Some s" by (simp add: locales_get_set_iff)
  from processFile_loop_on_set [OF this] show ?thesis by simp
qed

lemma addFromFile_error:
  "addFromFile fs f st = Returns (Some e, st') \<longleftrightarrow> require fs f = None \<and> e = LoadError \<and> st' = st"
proof (cases "require fs f")
  case None
  then show ?thesis by (auto simp: addFromFile_unreadable)
next
  case (Some loc)
  have "processFile_loop es (language_of f) (ensure_set st (language_of f)) \<noteq> Returns (Some e, st')" for es
    by (rule processFile_loop_no_error) (rule ensure_set_defined)
  with Some show ?thesis
    by (simp add: addFromFile_def processFile_def Let_def)
qed

lemma addFromFile_frame:
  assumes ok: "addFromFile fs f st = Returns (None, st')" and lang: "language_of f \<noteq> ''__proto__''"
  shows "prototype st' = prototype st \<and> enumerable st' = enumerable st \<and>
         (\<forall>L. L \<noteq> language_of f \<longrightarrow> table st' L = table st L)"
proof -
  let ?L = "language_of f"
  let ?st = "ensure_set st ?L"
  from ok obtain loc where loc: "require fs f = Some loc"
    by (cases "require fs f") (simp_all add: addFromFile_unreadable)
  let ?es = "loc @ for_in_inherited st loc"
  from ok loc have run: "processFile_loop ?es ?L ?st = Returns (None, st')"
    by (simp add: addFromFile_def processFile_def Let_def)
  show ?thesis
  proof (cases "locales_get ?st ?L")
    case Undefined
    with ensure_set_defined [of st ?L] show ?thesis by simp
  next
    case Null
    then show ?thesis by (simp add: locales_get_not_null)
  next
    case (Str x)
    with run have "st' = ?st"
      by (simp add: processFile_loop_engine split: if_splits)
    then show ?thesis by (simp add: ensure_set_other)
  next
    case (Function n)
    with run have "st' = ?st"
      by (simp add: processFile_loop_engine split: if_splits)
    then show ?thesis by (simp add: ensure_set_other)
  next
    case Object_prototype
    with lang show ?thesis by (simp add: locales_get_prototype)
  next
    case (Set s)
    then have "table ?st ?L = Some s" by (simp add: locales_get_set_iff)
    from processFile_loop_on_set [OF this, of ?es] run
    have "st' = ?st\<lparr>table := (table ?st)(?L \<mapsto> set_loop ?st ?es s)\<rparr>" by simp
    then show ?thesis by (simp add: ensure_set_other)
  qed
qed

lemma locales_get_frame:
  "prototype st' = prototype st \<Longrightarrow> table st' L = table st L \<Longrightarrow>
   locales_get st' L = locales_get st L"
  by (cases "table st L") (simp_all add: locales_get_def inherited_def data_property_def)

lemma get_property_frame:
  "prototype st' = prototype st \<Longrightarrow> get_property st' x k = get_property st x k"
  by (cases x) (simp_all add: inherited_def data_property_def split: option.splits)

lemma entry_frame:
  "prototype st' = prototype st \<Longrightarrow> table st' L = table st L \<Longrightarrow> entry st' L k = entry st L k"
  using locales_get_frame [of st' st L] get_property_frame [of st' st]
  by (simp add: entry_def Let_def)

lemma locales_frame:
  "prototype st' = prototype st \<Longrightarrow> table st' L = table st L \<Longrightarrow> locales st' L = locales st L"
  using locales_get_frame [of st' st L] by (simp add: locales_def)



lemma own_entry_table_update [simp]:
  "own_entry (st\<lparr>table := (table st)(L \<mapsto> s)\<rparr>) L k = s k"
  by (simp add: own_entry_def)










text \<open>
  C9 (as amended). For a successful \<open>addFromFile\<close> of a file with no key, whose language is
  a set of the table or \<open>undefined\<close>, with no enumerable name on \<open>Object.prototype\<close>: the
  language has a set afterwards, the one it had before and the empty one when it had none,
  and \<open>locales\<close> returns that set.
\<close>

theorem addFromFile_empty_file:
  assumes ok: "addFromFile fs path st = Returns (None, st')"
    and parsed: "require fs path = Some []"
    and lang: "own_or_undefined st (language_of path)"
    and clean: "enumerable st = []"
  shows "table st' (language_of path) = Some (set_of st (language_of path)) \<and>
         locales st' (language_of path) = Returns (Set (set_of st (language_of path))) \<and>
         (table st (language_of path) = None \<longrightarrow>
            locales st' (language_of path) = Returns (Set Map.empty))"
proof -
  let ?L = "language_of path"
  from clean have "for_in_inherited st [] = []"
    by (rule for_in_inherited_none)
  with ok addFromFile_own [OF lang parsed]
  have "st' = st\<lparr>table := (table st)(?L \<mapsto> set_of st ?L)\<rparr>"
    by simp
  then have tbl: "table st' ?L = Some (set_of st ?L)"
    by simp
  then have "locales st' ?L = Returns (Set (set_of st ?L))"
    by (simp add: locales_def locales_get_def)
  with tbl show ?thesis
    by (simp add: set_of_def)
qed

text \<open>
  C9 as stated fails where the language was loaded before: the file leaves its set, which
  is not empty, in place. It fails too where the language is a name that \<open>locales\<close>
  inherits: for \<open>empty.constructor.json\<close> no set is created, and \<open>locales\<close> returns the
  function \<open>Object\<close>.
\<close>

theorem addFromFile_empty_file_counterexample:
  "require \<lparr>require = [''empty.fr.json'' \<mapsto> [], ''empty.constructor.json'' \<mapsto> []], glob = Map.empty\<rparr>
     ''empty.fr.json'' = Some [] \<and>
   language_of ''empty.fr.json'' = ''fr'' \<and>
   (case addFromFile
           \<lparr>require = [''empty.fr.json'' \<mapsto> [], ''empty.constructor.json'' \<mapsto> []], glob = Map.empty\<rparr>
           ''empty.fr.json'' (new_Locale\<lparr>table := [''fr'' \<mapsto> [''Hello world'' \<mapsto> ''Foo bar'']]\<rparr>) of
      Returns (e, st') \<Rightarrow> e = None \<and> own_entry st' ''fr'' ''Hello world'' = Some ''Foo bar''
    | Throws e \<Rightarrow> False
    | Unmodelled \<Rightarrow> False) \<and>
   require \<lparr>require = [''empty.fr.json'' \<mapsto> [], ''empty.constructor.json'' \<mapsto> []], glob = Map.empty\<rparr>
     ''empty.constructor.json'' = Some [] \<and>
   language_of ''empty.constructor.json'' = ''constructor'' \<and>
   (case addFromFile
           \<lparr>require = [''empty.fr.json'' \<mapsto> [], ''empty.constructor.json'' \<mapsto> []], glob = Map.empty\<rparr>
           ''empty.constructor.json'' new_Locale of
      Returns (e, st') \<Rightarrow>
        e = None \<and> table st' ''constructor'' = None \<and>
        locales st' ''constructor'' = Returns (Function 1)
    | Throws e \<Rightarrow> False
    | Unmodelled \<Rightarrow> False)"
  by (simp add: evaluation)

theorem addFromFile_empty_file_witness:
  "own_or_undefined new_Locale (language_of ''empty.fr.json'') \<and> enumerable new_Locale = [] \<and>
   table new_Locale (language_of ''empty.fr.json'') = None \<and>
   (\<exists>st'. addFromFile \<lparr>require = [''empty.fr.json'' \<mapsto> []], glob = Map.empty\<rparr>
             ''empty.fr.json'' new_Locale = Returns (None, st') \<and>
          locales st' (language_of ''empty.fr.json'') = Returns (Set Map.empty))"
proof -
  let ?fs = "\<lparr>require = [''empty.fr.json'' \<mapsto> []], glob = Map.empty\<rparr>"
  have lang: "language_of ''empty.fr.json'' = ''fr''"
    by (simp add: language_of_def)
  have own: "own_or_undefined new_Locale (language_of ''empty.fr.json'')"
    by (simp add: lang evaluation)
  have clean: "enumerable new_Locale = []"
    by (simp add: new_Locale_def)
  have absent: "table new_Locale (language_of ''empty.fr.json'') = None"
    by (simp add: new_Locale_def)
  have parsed: "require ?fs ''empty.fr.json'' = Some []"
    by simp
  from addFromFile_own [OF own parsed] obtain st' where
    ok: "addFromFile ?fs ''empty.fr.json'' new_Locale = Returns (None, st')"
    by blast
  from addFromFile_empty_file [OF ok parsed own clean] absent
  have "locales st' (language_of ''empty.fr.json'') = Returns (Set Map.empty)"
    by blast
  with own clean absent ok show ?thesis by blast
qed

subsection \<open>Token substitution\<close>







subsection \<open>Lookup of a language\<close>

text \<open>
  C6 (as amended). \<open>locales\<close> throws, and then \<open>UndefinedLanguageError\<close>, exactly when the
  language has no set of its own and names nothing that \<open>locales\<close> inherits: it is not
  \<open>__proto__\<close> and not a property of \<open>Object.prototype\<close>. For a language with a set it
  returns that set, so it never fails for a language with a loaded key; for an inherited
  name without a set it returns the inherited value. Loading a file of another language,
  \<open>__proto__\<close> apart, does not change its answer.
\<close>

theorem locales_fails_iff_undefined:
  "(locales st L = Throws UndefinedLanguageError \<longleftrightarrow>
      table st L = None \<and> L \<noteq> ''__proto__'' \<and> prototype st L = None) \<and>
   (\<forall>e. locales st L = Throws e \<longrightarrow> e = UndefinedLanguageError) \<and>
   locales st L \<noteq> Unmodelled \<and>
   (\<forall>s. table st L = Some s \<longrightarrow> locales st L = Returns (Set s)) \<and>
   (\<forall>k v. own_entry st L k = Some v \<longrightarrow> (\<exists>s. locales st L = Returns (Set s) \<and> s k = Some v)) \<and>
   (table st L = None \<and> (L = ''__proto__'' \<or> prototype st L \<noteq> None) \<longrightarrow>
      locales st L = Returns (inherited st L)) \<and>
   (\<forall>fs path st'. addFromFile fs path st = Returns (None, st') \<and> language_of path \<noteq> L \<and>
        language_of path \<noteq> ''__proto__'' \<longrightarrow> locales st' L = locales st L)"
proof -
  have "locales st' L = locales st L"
    if "addFromFile fs path st = Returns (None, st')" "language_of path \<noteq> L"
      "language_of path \<noteq> ''__proto__''" for fs path st'
  proof -
    from addFromFile_frame [OF that(1,3)] that(2)
    have "prototype st' = prototype st" "table st' L = table st L"
      by auto
    then show ?thesis by (rule locales_frame)
  qed
  moreover have "(locales st L = Throws UndefinedLanguageError \<longleftrightarrow>
      table st L = None \<and> L \<noteq> ''__proto__'' \<and> prototype st L = None) \<and>
   (\<forall>e. locales st L = Throws e \<longrightarrow> e = UndefinedLanguageError) \<and>
   locales st L \<noteq> Unmodelled \<and>
   (\<forall>s. table st L = Some s \<longrightarrow> locales st L = Returns (Set s)) \<and>
   (\<forall>k v. own_entry st L k = Some v \<longrightarrow> (\<exists>s. locales st L = Returns (Set s) \<and> s k = Some v)) \<and>
   (table st L = None \<and> (L = ''__proto__'' \<or> prototype st L \<noteq> None) \<longrightarrow>
      locales st L = Returns (inherited st L))"
    by (auto simp: locales_def locales_get_def inherited_def data_property_def own_entry_def
        is_undefined_iff split: option.splits pval.splits)
  ultimately show ?thesis by blast
qed

text \<open>
  C6 as stated fails at a name that \<open>locales\<close> inherits: \<open>constructor\<close> and \<open>__proto__\<close> are
  absent from the table of a new \<open>Locale\<close>, and \<open>locales\<close> returns the function \<open>Object\<close>
  and \<open>Object.prototype\<close> for them.
\<close>

theorem locales_inherited_counterexample:
  "table new_Locale ''constructor'' = None \<and>
   locales new_Locale ''constructor'' = Returns (Function 1) \<and>
   table new_Locale ''__proto__'' = None \<and>
   locales new_Locale ''__proto__'' = Returns Object_prototype"
  by (simp add: new_Locale_def locales_def locales_get_def inherited_def data_property_def
      object_prototype_def)

theorem locales_fails_iff_undefined_witness:
  "table (new_Locale\<lparr>table := [''fr'' \<mapsto> [''Hello world'' \<mapsto> ''Foo bar'']]\<rparr>) ''jp'' = None \<and>
   ''jp'' \<noteq> ''__proto__'' \<and>
   prototype (new_Locale\<lparr>table := [''fr'' \<mapsto> [''Hello world'' \<mapsto> ''Foo bar'']]\<rparr>) ''jp'' = None \<and>
   locales (new_Locale\<lparr>table := [''fr'' \<mapsto> [''Hello world'' \<mapsto> ''Foo bar'']]\<rparr>) ''jp''
     = Throws UndefinedLanguageError \<and>
   own_entry (new_Locale\<lparr>table := [''fr'' \<mapsto> [''Hello world'' \<mapsto> ''Foo bar'']]\<rparr>) ''fr'' ''Hello world''
     = Some ''Foo bar'' \<and>
   locales (new_Locale\<lparr>table := [''fr'' \<mapsto> [''Hello world'' \<mapsto> ''Foo bar'']]\<rparr>) ''fr''
     = Returns (Set [''Hello world'' \<mapsto> ''Foo bar''])"
proof -
  let ?st = "new_Locale\<lparr>table := [''fr'' \<mapsto> [''Hello world'' \<mapsto> ''Foo bar'']]\<rparr>"
  have absent: "table ?st ''jp'' = None" "''jp'' \<noteq> ''__proto__''" "prototype ?st ''jp'' = None"
    by (simp_all add: new_Locale_def object_prototype_def)
  have present: "table ?st ''fr'' = Some [''Hello world'' \<mapsto> ''Foo bar'']"
    by simp
  have key: "own_entry ?st ''fr'' ''Hello world'' = Some ''Foo bar''"
    by (simp add: own_entry_def)
  from locales_fails_iff_undefined [of ?st "''jp''"] absent
  have "locales ?st ''jp'' = Throws UndefinedLanguageError" by blast
  moreover from locales_fails_iff_undefined [of ?st "''fr''"] present
  have "locales ?st ''fr'' = Returns (Set [''Hello world'' \<mapsto> ''Foo bar''])" by blast
  ultimately show ?thesis using absent key by blast
qed

subsection \<open>Display\<close>




subsection \<open>Writing a translation\<close>

lemma set_entry_own:
  assumes "own_or_undefined st lang" and "str \<noteq> ''__proto__''"
  shows "set_entry st lang str v
     = Returns (st\<lparr>table := (table st)(lang \<mapsto> (set_of st lang)(str \<mapsto> v))\<rparr>)"
proof -
  let ?st = "st\<lparr>table := (table st)(lang \<mapsto> set_of st lang)\<rparr>"
  from assms(1) have "ensure_set st lang = ?st"
    by (rule ensure_set_own)
  moreover have "locales_get ?st lang = Set (set_of st lang)"
    by (simp add: locales_get_def)
  ultimately show ?thesis
    using assms(2) by (simp add: set_entry_def put_property_def)
qed

lemma set_entry_own_entry:
  assumes "set_entry st l m v = Returns st'" and "L \<noteq> ''__proto__''" and "k \<noteq> ''__proto__''"
  shows "own_entry st' L k = (if l = L \<and> m = k then Some v else own_entry st L k)"
proof (cases "locales_get (ensure_set st l) l")
  case Undefined
  with ensure_set_defined [of st l] show ?thesis by simp
next
  case Null
  with assms(1) show ?thesis by (simp add: set_entry_def put_property_def)
next
  case (Str x)
  with assms(1) show ?thesis by (simp add: set_entry_def put_property_def)
next
  case (Function n)
  with assms(1) show ?thesis by (simp add: set_entry_def put_property_def)
next
  case Object_prototype
  then have l: "l = ''__proto__''" and "table (ensure_set st l) l = None"
    by (auto simp: locales_get_prototype)
  then have same: "ensure_set st l = st"
    by (auto simp: ensure_set_def split: if_splits)
  from Object_prototype assms(1) have "table st' = table (ensure_set st l)"
    by (auto simp: set_entry_def put_property_def split: if_splits)
  with same l assms(2) show ?thesis
    by (auto simp: own_entry_def)
next
  case (Set s)
  then have tb: "table (ensure_set st l) l = Some s"
    by (simp add: locales_get_set_iff)
  have s: "s = set_of st l"
  proof (cases "table st l")
    case None
    with tb show ?thesis
      by (auto simp: ensure_set_def set_of_def split: if_splits)
  next
    case (Some s')
    with tb show ?thesis
      by (auto simp: ensure_set_def set_of_def locales_get_def split: if_splits)
  qed
  have others: "table (ensure_set st l) L' = table st L'" if "L' \<noteq> l" for L'
    using that by (rule ensure_set_other)
  from Set assms(1) have st': "st' = (if m = ''__proto__'' \<and> s m = None then ensure_set st l
      else (ensure_set st l)\<lparr>table := (table (ensure_set st l))(l \<mapsto> s(m \<mapsto> v))\<rparr>)"
    by (simp add: set_entry_def put_property_def)
  show ?thesis
  proof (cases "l = L")
    case False
    with st' others [of L] show ?thesis
      by (auto simp: own_entry_def)
  next
    case True
    show ?thesis
    proof (cases "m = k")
      case True
      with \<open>l = L\<close> st' assms(3) show ?thesis
        by (simp add: own_entry_def)
    next
      case False
      with \<open>l = L\<close> st' tb s show ?thesis
        by (auto simp: own_entry_def set_of_def split: option.splits)
    qed
  qed
qed

text \<open>
  C1 (as amended). For a language that is a set of the table or \<open>undefined\<close> and a message
  other than \<open>__proto__\<close>: a failing lookup ends the call with \<open>StoreError\<close>, the state and
  the collection as they were. After a lookup that succeeds the entry is assigned before
  the save is issued: the call ends with \<open>StoreError\<close> exactly when the save fails, the
  collection then as it was, and in both cases the state is the one the assignment left.
  There the entry holds the translation and reads as it, every other entry of the
  language and every other language are as before, and \<open>Object.prototype\<close> is untouched.
\<close>

theorem translate_table_update:
  assumes lang: "own_or_undefined st lang" and key: "str \<noteq> ''__proto__''"
  shows "(findOne_fails c \<longrightarrow> translate c lang str v st = Returns (Some StoreError, st, c)) \<and>
         (\<not> findOne_fails c \<longrightarrow>
            (\<exists>st' c'. translate c lang str v st
                 = Returns (if save_fails c then Some StoreError else None, st', c') \<and>
               (save_fails c \<longrightarrow> c' = c) \<and>
               set_entry st lang str v = Returns st' \<and>
               own_entry st' lang str = Some v \<and>
               entry st' lang str = Returns (Str v) \<and>
               (\<forall>k. k \<noteq> str \<longrightarrow> own_entry st' lang k = own_entry st lang k) \<and>
               (\<forall>L k. L \<noteq> lang \<longrightarrow> table st' L = table st L \<and> entry st' L k = entry st L k) \<and>
               prototype st' = prototype st \<and> enumerable st' = enumerable st))"
proof -
  let ?st = "st\<lparr>table := (table st)(lang \<mapsto> (set_of st lang)(str \<mapsto> v))\<rparr>"
  from lang key have put: "set_entry st lang str v = Returns ?st"
    by (rule set_entry_own)
  have own: "own_entry ?st lang str = Some v"
    by simp
  then have rd: "entry ?st lang str = Returns (Str v)"
    by (rule own_entry_entry)
  have rest: "own_entry ?st lang k = own_entry st lang k" if "k \<noteq> str" for k
    using that by (simp add: own_entry_def set_of_def split: option.splits)
  have frame: "table ?st L = table st L \<and> entry ?st L k = entry st L k" if "L \<noteq> lang" for L k
  proof -
    from that have tb: "table ?st L = table st L" by simp
    moreover have "prototype ?st = prototype st" by simp
    then have "entry ?st L k = entry st L k" using tb by (rule entry_frame)
    ultimately show ?thesis by simp
  qed
  have failed: "translate c lang str v st = Returns (Some StoreError, st, c)" if "findOne_fails c"
    using that by (simp add: translate_def findOne_def)
  have stored: "\<exists>c'. translate c lang str v st
        = Returns (if save_fails c then Some StoreError else None, ?st, c') \<and>
      (save_fails c \<longrightarrow> c' = c)" if "\<not> findOne_fails c"
    using that put by (auto simp: translate_def findOne_def save_def Let_def)
  from failed stored put own rd rest frame show ?thesis
    by (intro conjI impI) (simp, (rule exI [of _ ?st], auto))
qed

text \<open>
  C1 as stated fails when the save fails: the call reports \<open>StoreError\<close> and the table
  already holds the new translation. It fails too for the message \<open>__proto__\<close>: the call
  succeeds and no entry is set. For the language \<open>__proto__\<close> the entry is written on
  \<open>Object.prototype\<close>, where the set of every other language reads it.
\<close>

theorem translate_save_failure_counterexample:
  "own_entry new_Locale ''fr'' ''Hello world'' = None \<and>
   (case translate \<lparr>docs = [], find_fails = False, findOne_fails = False, save_fails = True\<rparr>
           ''fr'' ''Hello world'' ''Foo bar'' new_Locale of
      Returns (e, st', c') \<Rightarrow>
        e = Some StoreError \<and> own_entry st' ''fr'' ''Hello world'' = Some ''Foo bar''
    | Throws e \<Rightarrow> False
    | Unmodelled \<Rightarrow> False) \<and>
   (case translate \<lparr>docs = [], find_fails = False, findOne_fails = False, save_fails = False\<rparr>
           ''fr'' ''__proto__'' ''Foo bar'' new_Locale of
      Returns (e, st', c') \<Rightarrow>
        e = None \<and> own_entry st' ''fr'' ''__proto__'' = None \<and>
        entry st' ''fr'' ''__proto__'' = Returns Object_prototype
    | Throws e \<Rightarrow> False
    | Unmodelled \<Rightarrow> False) \<and>
   entry (new_Locale\<lparr>table := [''jp'' \<mapsto> Map.empty]\<rparr>) ''jp'' ''Hello world'' = Returns Undefined \<and>
   (case translate \<lparr>docs = [], find_fails = False, findOne_fails = False, save_fails = False\<rparr>
           ''__proto__'' ''Hello world'' ''Foo bar'' (new_Locale\<lparr>table := [''jp'' \<mapsto> Map.empty]\<rparr>) of
      Returns (e, st', c') \<Rightarrow>
        e = None \<and> table st' ''__proto__'' = None \<and>
        entry st' ''jp'' ''Hello world'' = Returns (Str ''Foo bar'')
    | Throws e \<Rightarrow> False
    | Unmodelled \<Rightarrow> False)"
  by (simp add: translate_def findOne_def save_def set_entry_def ensure_set_def put_property_def
      locales_get_def inherited_def data_property_def new_Locale_def object_prototype_def
      own_entry_def entry_def)

theorem translate_table_update_witness:
  "own_or_undefined new_Locale ''fr'' \<and> ''Hello world'' \<noteq> ''__proto__'' \<and>
   findOne_fails \<lparr>docs = [], find_fails = False, findOne_fails = True, save_fails = False\<rparr> \<and>
   translate \<lparr>docs = [], find_fails = False, findOne_fails = True, save_fails = False\<rparr>
     ''fr'' ''Hello world'' ''Foo bar'' new_Locale
   = Returns (Some StoreError, new_Locale,
      \<lparr>docs = [], find_fails = False, findOne_fails = True, save_fails = False\<rparr>) \<and>
   \<not> findOne_fails \<lparr>docs = [], find_fails = False, findOne_fails = False, save_fails = False\<rparr> \<and>
   \<not> save_fails \<lparr>docs = [], find_fails = False, findOne_fails = False, save_fails = False\<rparr> \<and>
   (\<exists>st' c'. translate \<lparr>docs = [], find_fails = False, findOne_fails = False, save_fails = False\<rparr>
        ''fr'' ''Hello world'' ''Foo bar'' new_Locale = Returns (None, st', c') \<and>
      entry st' ''fr'' ''Hello world'' = Returns (Str ''Foo bar'') \<and>
      table st' ''jp'' = None)"
proof -
  let ?bad = "\<lparr>docs = [], find_fails = False, findOne_fails = True, save_fails = False\<rparr>"
  let ?good = "\<lparr>docs = [], find_fails = False, findOne_fails = False, save_fails = False\<rparr>"
  have own: "own_or_undefined new_Locale ''fr''"
    by (simp add: evaluation)
  have key: "''Hello world'' \<noteq> ''__proto__''"
    by simp
  have bad: "findOne_fails ?bad" by simp
  have good: "\<not> findOne_fails ?good" "\<not> save_fails ?good" by simp_all
  have other: "''jp'' \<noteq> ''fr''" by simp
  have before: "table new_Locale ''jp'' = None" by (simp add: new_Locale_def)
  from translate_table_update [OF own key, of ?bad "''Foo bar''", THEN conjunct1, THEN mp, OF bad]
  have failed: "translate ?bad ''fr'' ''Hello world'' ''Foo bar'' new_Locale
      = Returns (Some StoreError, new_Locale, ?bad)" .
  from translate_table_update [OF own key, of ?good "''Foo bar''", THEN conjunct2, THEN mp, OF good(1)]
  obtain st' c' where
    run: "translate ?good ''fr'' ''Hello world'' ''Foo bar'' new_Locale
      = Returns (if save_fails ?good then Some StoreError else None, st', c')" and
    rd: "entry st' ''fr'' ''Hello world'' = Returns (Str ''Foo bar'')" and
    frame: "\<forall>L k. L \<noteq> ''fr'' \<longrightarrow> table st' L = table new_Locale L \<and> entry st' L k = entry new_Locale L k"
    by blast
  from run have saved: "translate ?good ''fr'' ''Hello world'' ''Foo bar'' new_Locale
      = Returns (None, st', c')"
    by simp
  from frame other before have "table st' ''jp'' = None"
    by simp
  with saved rd have "\<exists>st' c'. translate ?good ''fr'' ''Hello world'' ''Foo bar'' new_Locale
        = Returns (None, st', c') \<and>
      entry st' ''fr'' ''Hello world'' = Returns (Str ''Foo bar'') \<and> table st' ''jp'' = None"
    by blast
  with own key bad failed good show ?thesis
    by (intro conjI) assumption+
qed

subsection \<open>Loading from the store\<close>

lemma find_append:
  "find P (xs @ ys) = (case find P xs of Some x \<Rightarrow> Some x | None \<Rightarrow> find P ys)"
  by (induction xs) auto

lemma find_Some_member: "find P xs = Some d \<Longrightarrow> d \<in> set xs \<and> P d"
  by (induction xs) (auto split: if_splits)

lemma addFromDatabase_forEach_own_entry:
  assumes "addFromDatabase_forEach ds st = Returns st'" and "L \<noteq> ''__proto__''" and "k \<noteq> ''__proto__''"
  shows "own_entry st' L k =
     (case find (\<lambda>d. language d = L \<and> msg d = k) (rev ds) of
        Some d \<Rightarrow> Some (translation d)
      | None \<Rightarrow> own_entry st L k)"
  using assms(1)
proof (induction ds arbitrary: st)
  case Nil
  then show ?case by simp
next
  case (Cons d ds)
  from Cons.prems obtain st1 where
    first: "set_entry st (language d) (msg d) (translation d) = Returns st1" and
    rest: "addFromDatabase_forEach ds st1 = Returns st'"
    by (auto split: result.splits)
  from set_entry_own_entry [OF first assms(2,3)]
  have one: "own_entry st1 L k
      = (if language d = L \<and> msg d = k then Some (translation d) else own_entry st L k)" .
  from Cons.IH [OF rest]
  have "own_entry st' L k =
     (case find (\<lambda>d. language d = L \<and> msg d = k) (rev ds) of
        Some d \<Rightarrow> Some (translation d)
      | None \<Rightarrow> own_entry st1 L k)" .
  with one show ?case
    by (simp add: find_append split: option.splits)
qed

lemma addFromDatabase_success:
  "addFromDatabase c st = Returns (None, st') \<longleftrightarrow>
     \<not> find_fails c \<and> addFromDatabase_forEach (docs c) st = Returns st'"
  by (auto simp: addFromDatabase_def find_all_def split: result.splits)

lemma addFromDatabase_failure:
  "find_fails c \<Longrightarrow> addFromDatabase c st = Returns (Some StoreError, st)"
  by (simp add: addFromDatabase_def find_all_def)

lemma series_append:
  "series (xs @ ys) s =
     (case series xs s of
        Returns (Some e, s') \<Rightarrow> Returns (Some e, s')
      | Returns (None, s') \<Rightarrow> series ys s'
      | Throws e \<Rightarrow> Throws e
      | Unmodelled \<Rightarrow> Unmodelled)"
  by (induction xs arbitrary: s) (auto split: result.splits prod.splits option.splits)

lemma series_single: "series [task] s = task s"
  by (cases "task s") (auto split: prod.splits option.splits)

lemma initialize_success:
  "initialize fs c dir st = Returns (None, st') \<Longrightarrow> \<exists>st1. addFromDatabase c st1 = Returns (None, st')"
  by (cases dir)
    (auto simp: initialize_def series_single split: if_splits result.splits prod.splits option.splits)

text \<open>
  C3 (as amended). After a successful load from the store, on its own or as the last phase
  of \<open>initialize\<close>, for a language and a message other than \<open>__proto__\<close>: the entry of the
  pair holds the translation of the last record read for it, whatever a file or an earlier
  load had put there; a pair for which no record is read keeps its own entry through
  \<open>_addFromDatabase\<close>; and a record whose pair is read with no other translation gives
  the entry.
\<close>

theorem store_last_record_wins:
  assumes loaded: "addFromDatabase c st = Returns (None, st') \<or>
      initialize fs c dir st = Returns (None, st')"
    and lang: "L \<noteq> ''__proto__''" and key: "k \<noteq> ''__proto__''"
  shows "(\<forall>d. find (\<lambda>d. language d = L \<and> msg d = k) (rev (docs c)) = Some d \<longrightarrow>
            own_entry st' L k = Some (translation d) \<and>
            entry st' L k = Returns (Str (translation d))) \<and>
         (find (\<lambda>d. language d = L \<and> msg d = k) (rev (docs c)) = None \<and>
          addFromDatabase c st = Returns (None, st') \<longrightarrow>
            own_entry st' L k = own_entry st L k) \<and>
         (\<forall>r \<in> set (docs c).
            language r = L \<and> msg r = k \<and>
            (\<forall>r' \<in> set (docs c). language r' = L \<and> msg r' = k \<longrightarrow> translation r' = translation r)
            \<longrightarrow> entry st' L k = Returns (Str (translation r)))"
proof -
  let ?P = "\<lambda>d. language d = L \<and> msg d = k"
  from loaded obtain st1 where db: "addFromDatabase c st1 = Returns (None, st')"
    using initialize_success by blast
  then have run: "addFromDatabase_forEach (docs c) st1 = Returns st'"
    by (simp add: addFromDatabase_success)
  note own = addFromDatabase_forEach_own_entry [OF run lang key]
  have last: "own_entry st' L k = Some (translation d) \<and> entry st' L k = Returns (Str (translation d))"
    if "find ?P (rev (docs c)) = Some d" for d
  proof -
    from own that have "own_entry st' L k = Some (translation d)" by simp
    then show ?thesis by (simp add: own_entry_entry)
  qed
  have none: "own_entry st' L k = own_entry st L k"
    if "find ?P (rev (docs c)) = None" "addFromDatabase c st = Returns (None, st')"
  proof -
    from that(2) have "addFromDatabase_forEach (docs c) st = Returns st'"
      by (simp add: addFromDatabase_success)
    from addFromDatabase_forEach_own_entry [OF this lang key] that(1) show ?thesis by simp
  qed
  have unique: "entry st' L k = Returns (Str (translation r))"
    if r: "r \<in> set (docs c)" "language r = L \<and> msg r = k"
      and u: "\<forall>r' \<in> set (docs c). language r' = L \<and> msg r' = k \<longrightarrow> translation r' = translation r"
    for r
  proof (cases "find ?P (rev (docs c))")
    case None
    with r show ?thesis by (auto simp: find_None_iff)
  next
    case (Some d)
    from find_Some_member [OF Some] u have "translation d = translation r"
      by simp
    with last [OF Some] show ?thesis by simp
  qed
  from last none unique show ?thesis by blast
qed

text \<open>
  C3 as stated fails for a record that is not the last read for its pair: the entry is the
  translation of the later record. It fails for a record whose message is \<open>__proto__\<close>,
  which is never stored, and for one whose language is \<open>__proto__\<close>: no set of that name
  exists afterwards, and the translation is written on \<open>Object.prototype\<close>, where the set
  of every other language reads it.
\<close>

theorem store_duplicate_record_counterexample:
  "(case addFromDatabase
           \<lparr>docs = [\<lparr>language = ''fr'', msg = ''Hello'', translation = ''Bonjour''\<rparr>,
                    \<lparr>language = ''fr'', msg = ''Hello'', translation = ''Salut''\<rparr>],
            find_fails = False, findOne_fails = False, save_fails = False\<rparr> new_Locale of
      Returns (e, st') \<Rightarrow> e = None \<and> entry st' ''fr'' ''Hello'' = Returns (Str ''Salut'')
    | Throws e \<Rightarrow> False
    | Unmodelled \<Rightarrow> False) \<and>
   ''Salut'' \<noteq> ''Bonjour'' \<and>
   (case addFromDatabase
           \<lparr>docs = [\<lparr>language = ''fr'', msg = ''__proto__'', translation = ''Bonjour''\<rparr>],
            find_fails = False, findOne_fails = False, save_fails = False\<rparr> new_Locale of
      Returns (e, st') \<Rightarrow>
        e = None \<and> entry st' ''fr'' ''__proto__'' = Returns Object_prototype \<and>
        own_entry st' ''fr'' ''__proto__'' = None
    | Throws e \<Rightarrow> False
    | Unmodelled \<Rightarrow> False) \<and>
   (case addFromDatabase
           \<lparr>docs = [\<lparr>language = ''__proto__'', msg = ''Hello'', translation = ''Bonjour''\<rparr>],
            find_fails = False, findOne_fails = False, save_fails = False\<rparr>
           (new_Locale\<lparr>table := [''jp'' \<mapsto> Map.empty]\<rparr>) of
      Returns (e, st') \<Rightarrow>
        e = None \<and> table st' ''__proto__'' = None \<and>
        entry st' ''jp'' ''Hello'' = Returns (Str ''Bonjour'')
    | Throws e \<Rightarrow> False
    | Unmodelled \<Rightarrow> False)"
  by (simp add: addFromDatabase_def find_all_def set_entry_def ensure_set_def put_property_def
      locales_get_def inherited_def data_property_def new_Locale_def object_prototype_def
      own_entry_def entry_def)


theorem store_last_record_wins_witness:
  "''fr'' \<noteq> ''__proto__'' \<and> ''Hello world'' \<noteq> ''__proto__'' \<and>
   find (\<lambda>d. language d = ''fr'' \<and> msg d = ''Hello world'')
     (rev (docs \<lparr>docs = [\<lparr>language = ''fr'', msg = ''Hello world'', translation = ''Goodbye''\<rparr>],
                 find_fails = False, findOne_fails = False, save_fails = False\<rparr>))
     = Some \<lparr>language = ''fr'', msg = ''Hello world'', translation = ''Goodbye''\<rparr> \<and>
   (case addFromDir
           \<lparr>require = [''d/test1.fr.json'' \<mapsto> [(''Hello world'', ''Foo bar'')]],
            glob = [''d'' \<mapsto> [''d/test1.fr.json'']]\<rparr> ''d'' new_Locale of
      Returns (e, st') \<Rightarrow> e = None \<and> entry st' ''fr'' ''Hello world'' = Returns (Str ''Foo bar'')
    | Throws e \<Rightarrow> False
    | Unmodelled \<Rightarrow> False) \<and>
   (\<exists>st'. initialize
       \<lparr>require = [''d/test1.fr.json'' \<mapsto> [(''Hello world'', ''Foo bar'')]],
        glob = [''d'' \<mapsto> [''d/test1.fr.json'']]\<rparr>
       \<lparr>docs = [\<lparr>language = ''fr'', msg = ''Hello world'', translation = ''Goodbye''\<rparr>],
        find_fails = False, findOne_fails = False, save_fails = False\<rparr>
       (Some ''d'') new_Locale = Returns (None, st') \<and>
      entry st' ''fr'' ''Hello world'' = Returns (Str ''Goodbye''))"
proof -
  let ?fs = "\<lparr>require = [''d/test1.fr.json'' \<mapsto> [(''Hello world'', ''Foo bar'')]],
      glob = [''d'' \<mapsto> [''d/test1.fr.json'']]\<rparr>"
  let ?r = "\<lparr>language = ''fr'', msg = ''Hello world'', translation = ''Goodbye''\<rparr>"
  let ?c = "\<lparr>docs = [?r], find_fails = False, findOne_fails = False, save_fails = False\<rparr>"
  have lang: "''fr'' \<noteq> ''__proto__''" and key: "''Hello world'' \<noteq> ''__proto__''"
    by simp_all
  have last: "find (\<lambda>d. language d = ''fr'' \<and> msg d = ''Hello world'') (rev (docs ?c)) = Some ?r"
    by simp
  have el: "eligible ''d/test1.fr.json''"
    by (simp add: eligible_def)
  have files: "case addFromDir ?fs ''d'' new_Locale of
      Returns (e, st') \<Rightarrow> e = None \<and> entry st' ''fr'' ''Hello world'' = Returns (Str ''Foo bar'')
    | Throws e \<Rightarrow> False
    | Unmodelled \<Rightarrow> False"
    by (simp add: addFromDir_def el evaluation)
  have "\<exists>st'. initialize ?fs ?c (Some ''d'') new_Locale = Returns (None, st')"
    by (simp add: initialize_def addFromDir_def el addFromDatabase_def find_all_def evaluation)
  then obtain st' where ok: "initialize ?fs ?c (Some ''d'') new_Locale = Returns (None, st')"
    by blast
  then have "addFromDatabase ?c new_Locale = Returns (None, st') \<or>
      initialize ?fs ?c (Some ''d'') new_Locale = Returns (None, st')"
    by (rule disjI2)
  from store_last_record_wins [OF this lang key, THEN conjunct1, rule_format, OF last]
  have "entry st' ''fr'' ''Hello world'' = Returns (Str (translation ?r))"
    by (rule conjunct2)
  then have "entry st' ''fr'' ''Hello world'' = Returns (Str ''Goodbye'')"
    by simp
  with ok have "\<exists>st'. initialize ?fs ?c (Some ''d'') new_Locale = Returns (None, st') \<and>
      entry st' ''fr'' ''Hello world'' = Returns (Str ''Goodbye'')"
    by blast
  with lang key last files show ?thesis
    by (intro conjI)
qed

subsection \<open>Loading a directory\<close>

lemma eligible_iff:
  "eligible item \<longleftrightarrow> (\<exists>a b c. split_dot item = [a, b, c] \<and> length b = 2)"
proof
  assume "eligible item"
  then have len: "length (split_dot item) = 3" and mid: "length (split_dot item ! 1) = 2"
    by (simp_all add: eligible_def Let_def)
  from len obtain a b c where "split_dot item = [a, b, c]"
    by (auto simp: length_Suc_conv numeral_3_eq_3)
  with mid show "\<exists>a b c. split_dot item = [a, b, c] \<and> length b = 2"
    by simp
next
  assume "\<exists>a b c. split_dot item = [a, b, c] \<and> length b = 2"
  then show "eligible item"
    by (auto simp: eligible_def Let_def)
qed

lemma eligible_language: "eligible item \<Longrightarrow> length (language_of item) = 2"
  by (auto simp: eligible_iff language_of_def)

lemma loaded_own:
  assumes "own_or_undefined st (language_of f)" and "require fs f = Some loc"
  shows "loaded fs f st = st\<lparr>table := (table st)(language_of f \<mapsto>
        set_loop st (loc @ for_in_inherited st loc) (set_of st (language_of f)))\<rparr>"
  using addFromFile_own [OF assms] by (simp add: loaded_def)

lemma loaded_success:
  assumes "own_or_undefined st (language_of f)" and "require fs f = Some loc"
  shows "addFromFile fs f st = Returns (None, loaded fs f st)"
  using addFromFile_own [OF assms] by (simp add: loaded_def)

lemma loaded_own_or_undefined:
  assumes "own_or_undefined st (language_of f)" and "require fs f = Some loc"
    and "own_or_undefined st L"
  shows "own_or_undefined (loaded fs f st) L"
  using assms(3) by (auto simp: loaded_own [OF assms(1,2)] own_or_undefined_def)






lemma series_addFromFile_all:
  "\<forall>p \<in> set ps. require fs p \<noteq> None \<and> own_or_undefined st (language_of p) \<Longrightarrow>
   series (map (addFromFile fs) ps) st = Returns (None, fold (loaded fs) ps st)"
proof (induction ps arbitrary: st)
  case Nil
  then show ?case by simp
next
  case (Cons p ps)
  from Cons.prems obtain loc where loc: "require fs p = Some loc" and own: "own_or_undefined st (language_of p)"
    by auto
  have "\<forall>q \<in> set ps. require fs q \<noteq> None \<and> own_or_undefined (loaded fs p st) (language_of q)"
    using Cons.prems loaded_own_or_undefined [OF own loc] by simp
  from Cons.IH [OF this] loaded_success [OF own loc] show ?case
    by simp
qed



text \<open>
  C8. A series stops at its first failing step with that step's error and the state the
  steps before it produced. For \<open>addFromDir\<close>: when the eligible files before a failing one
  load, the result is the error of that file, a \<open>LoadError\<close>, on the state those files
  left; when they are readable and the failing one is unreadable, that state is the fold
  of the loads over them; the files after it are not loaded. For \<open>initialize\<close>: a failure
  of \<open>addFromDir\<close> is the result, with the state as \<open>addFromDir\<close> left it and the store
  not read; otherwise the store is read on the state the files produced, and a failing
  read leaves that state.
\<close>

theorem sequences_halt_without_rollback:
  "(series pre st = Returns (None, st') \<and> step st' = Returns (Some e, st'') \<longrightarrow>
      series (pre @ step # post) st = Returns (Some e, st'')) \<and>
   (glob fs dir = Some files \<and> filter eligible files = ok @ bad # rest \<and>
    series (map (addFromFile fs) ok) st = Returns (None, st') \<and>
    addFromFile fs bad st' = Returns (Some e, st'') \<longrightarrow>
      addFromDir fs dir st = Returns (Some e, st'') \<and> st'' = st' \<and> e = LoadError) \<and>
   (glob fs dir = Some files \<and> filter eligible files = ok @ bad # rest \<and>
    (\<forall>p \<in> set ok. require fs p \<noteq> None \<and> own_or_undefined st (language_of p)) \<and>
    require fs bad = None \<longrightarrow>
      addFromDir fs dir st = Returns (Some LoadError, fold (loaded fs) ok st)) \<and>
   (d \<noteq> [] \<and> addFromDir fs d st = Returns (Some e, st') \<longrightarrow>
      initialize fs c (Some d) st = Returns (Some e, st')) \<and>
   (d \<noteq> [] \<and> addFromDir fs d st = Returns (None, st') \<longrightarrow>
      initialize fs c (Some d) st = addFromDatabase c st') \<and>
   (find_fails c \<longrightarrow> addFromDatabase c st' = Returns (Some StoreError, st')) \<and>
   initialize fs c None st = addFromDatabase c st \<and>
   initialize fs c (Some []) st = addFromDatabase c st"
proof -
  have c1: "series pre st = Returns (None, st') \<and> step st' = Returns (Some e, st'') \<longrightarrow>
      series (pre @ step # post) st = Returns (Some e, st'')"
    by (simp add: series_append)
  have c2: "glob fs dir = Some files \<and> filter eligible files = ok @ bad # rest \<and>
    series (map (addFromFile fs) ok) st = Returns (None, st') \<and>
    addFromFile fs bad st' = Returns (Some e, st'') \<longrightarrow>
      addFromDir fs dir st = Returns (Some e, st'') \<and> st'' = st' \<and> e = LoadError"
  proof (intro impI, elim conjE)
    assume listing: "glob fs dir = Some files" and queue: "filter eligible files = ok @ bad # rest"
      and before: "series (map (addFromFile fs) ok) st = Returns (None, st')"
      and failing: "addFromFile fs bad st' = Returns (Some e, st'')"
    from before failing
    have "series (map (addFromFile fs) (ok @ bad # rest)) st = Returns (Some e, st'')"
      by (simp add: series_append)
    with listing queue have "addFromDir fs dir st = Returns (Some e, st'')"
      by (simp add: addFromDir_def)
    moreover from failing have "st'' = st'" "e = LoadError"
      by (simp_all add: addFromFile_error)
    ultimately show "addFromDir fs dir st = Returns (Some e, st'') \<and> st'' = st' \<and> e = LoadError"
      by simp
  qed
  have c3: "glob fs dir = Some files \<and> filter eligible files = ok @ bad # rest \<and>
    (\<forall>p \<in> set ok. require fs p \<noteq> None \<and> own_or_undefined st (language_of p)) \<and>
    require fs bad = None \<longrightarrow>
      addFromDir fs dir st = Returns (Some LoadError, fold (loaded fs) ok st)"
  proof (intro impI, elim conjE)
    assume listing: "glob fs dir = Some files" and queue: "filter eligible files = ok @ bad # rest"
      and readable: "\<forall>p \<in> set ok. require fs p \<noteq> None \<and> own_or_undefined st (language_of p)"
      and unreadable: "require fs bad = None"
    let ?st = "fold (loaded fs) ok st"
    from readable have "series (map (addFromFile fs) ok) st = Returns (None, ?st)"
      by (rule series_addFromFile_all)
    moreover from unreadable have "addFromFile fs bad ?st = Returns (Some LoadError, ?st)"
      by (rule addFromFile_unreadable)
    ultimately have "series (map (addFromFile fs) (ok @ bad # rest)) st = Returns (Some LoadError, ?st)"
      by (simp add: series_append)
    with listing queue show "addFromDir fs dir st = Returns (Some LoadError, ?st)"
      by (simp add: addFromDir_def)
  qed
  have c4: "d \<noteq> [] \<and> addFromDir fs d st = Returns (Some e, st') \<longrightarrow>
      initialize fs c (Some d) st = Returns (Some e, st')"
    by (simp add: initialize_def)
  have c5: "d \<noteq> [] \<and> addFromDir fs d st = Returns (None, st') \<longrightarrow>
      initialize fs c (Some d) st = addFromDatabase c st'"
    by (cases "addFromDatabase c st'") (auto simp: initialize_def split: prod.splits option.splits)
  have c6: "find_fails c \<longrightarrow> addFromDatabase c st' = Returns (Some StoreError, st')"
    by (simp add: addFromDatabase_failure)
  have c7: "initialize fs c None st = addFromDatabase c st"
    and c8: "initialize fs c (Some []) st = addFromDatabase c st"
    by (simp_all add: initialize_def series_single del: series.simps)
  from c1 c2 c3 c4 c5 c6 c7 c8 show ?thesis
    by (intro conjI)
qed

theorem sequences_halt_without_rollback_witness:
  "(\<exists>st'. addFromDir
       \<lparr>require = [''d/a.fr.json'' \<mapsto> [(''Hello'', ''Bonjour'')], ''d/c.jp.json'' \<mapsto> [(''Hello'', ''Konnichiwa'')]],
        glob = [''d'' \<mapsto> [''d/a.fr.json'', ''d/b.fr.json'', ''d/c.jp.json'']]\<rparr> ''d'' new_Locale
      = Returns (Some LoadError, st') \<and>
      entry st' ''fr'' ''Hello'' = Returns (Str ''Bonjour'') \<and> table st' ''jp'' = None) \<and>
   (\<exists>st'. initialize
       \<lparr>require = [''d/a.fr.json'' \<mapsto> [(''Hello'', ''Bonjour'')], ''d/c.jp.json'' \<mapsto> [(''Hello'', ''Konnichiwa'')]],
        glob = [''d'' \<mapsto> [''d/a.fr.json'', ''d/b.fr.json'', ''d/c.jp.json'']]\<rparr>
       \<lparr>docs = [\<lparr>language = ''jp'', msg = ''Hello'', translation = ''Ohayo''\<rparr>],
        find_fails = False, findOne_fails = False, save_fails = False\<rparr>
       (Some ''d'') new_Locale
      = Returns (Some LoadError, st') \<and>
      entry st' ''fr'' ''Hello'' = Returns (Str ''Bonjour'') \<and> table st' ''jp'' = None)"
proof -
  let ?files = "[''d/a.fr.json'', ''d/b.fr.json'', ''d/c.jp.json'']"
  let ?fs = "\<lparr>require = [''d/a.fr.json'' \<mapsto> [(''Hello'', ''Bonjour'')],
                    ''d/c.jp.json'' \<mapsto> [(''Hello'', ''Konnichiwa'')]],
         glob = [''d'' \<mapsto> ?files]\<rparr>"
  let ?c = "\<lparr>docs = [\<lparr>language = ''jp'', msg = ''Hello'', translation = ''Ohayo''\<rparr>],
      find_fails = False, findOne_fails = False, save_fails = False\<rparr>"
  let ?st = "fold (loaded ?fs) [''d/a.fr.json''] new_Locale"
  have listing: "glob ?fs ''d'' = Some ?files"
    by simp
  have e1: "eligible ''d/a.fr.json''" by (simp add: eligible_def)
  have e2: "eligible ''d/b.fr.json''" by (simp add: eligible_def)
  have e3: "eligible ''d/c.jp.json''" by (simp add: eligible_def)
  have queue: "filter eligible ?files = [''d/a.fr.json''] @ ''d/b.fr.json'' # [''d/c.jp.json'']"
    by (simp add: e1 e2 e3)
  have readable: "\<forall>p \<in> set [''d/a.fr.json''].
      require ?fs p \<noteq> None \<and> own_or_undefined new_Locale (language_of p)"
    by (simp add: evaluation)
  have unreadable: "require ?fs ''d/b.fr.json'' = None"
    by simp
  have dir: "''d'' \<noteq> []"
    by simp
  note facts = sequences_halt_without_rollback [where fs = ?fs and dir = "''d''" and d = "''d''"
      and files = ?files and ok = "[''d/a.fr.json'']" and bad = "''d/b.fr.json''"
      and rest = "[''d/c.jp.json'']" and st = new_Locale and e = LoadError and st' = ?st
      and c = ?c]
  from listing queue readable unreadable
  have "glob ?fs ''d'' = Some ?files \<and>
      filter eligible ?files = [''d/a.fr.json''] @ ''d/b.fr.json'' # [''d/c.jp.json''] \<and>
      (\<forall>p \<in> set [''d/a.fr.json'']. require ?fs p \<noteq> None \<and> own_or_undefined new_Locale (language_of p)) \<and>
      require ?fs ''d/b.fr.json'' = None"
    by (intro conjI)
  from facts [THEN conjunct2, THEN conjunct2, THEN conjunct1, THEN mp, OF this]
  have halted: "addFromDir ?fs ''d'' new_Locale = Returns (Some LoadError, ?st)" .
  from dir halted
  have "''d'' \<noteq> [] \<and> addFromDir ?fs ''d'' new_Locale = Returns (Some LoadError, ?st)"
    by (intro conjI)
  from facts [THEN conjunct2, THEN conjunct2, THEN conjunct2, THEN conjunct1, THEN mp, OF this]
  have init: "initialize ?fs ?c (Some ''d'') new_Locale = Returns (Some LoadError, ?st)" .
  have kept: "entry ?st ''fr'' ''Hello'' = Returns (Str ''Bonjour'')"
    by (simp add: loaded_def evaluation)
  have untouched: "table ?st ''jp'' = None"
    by (simp add: loaded_def evaluation)
  from halted kept untouched
  have "\<exists>st'. addFromDir ?fs ''d'' new_Locale = Returns (Some LoadError, st') \<and>
      entry st' ''fr'' ''Hello'' = Returns (Str ''Bonjour'') \<and> table st' ''jp'' = None"
    by blast
  moreover from init kept untouched
  have "\<exists>st'. initialize ?fs ?c (Some ''d'') new_Locale = Returns (Some LoadError, st') \<and>
      entry st' ''fr'' ''Hello'' = Returns (Str ''Bonjour'') \<and> table st' ''jp'' = None"
    by blast
  ultimately show ?thesis
    by (intro conjI)
qed




end
